theory Spec2Isabelle
  imports Main "HOL-Library.Word"
begin

section \<open>The fleet gateway: data model\<close>

text \<open>
  The source is \<^verbatim>\<open>x-pack/agent/pkg/agent/application/fleet_gateway.go\<close>.
  The gateway talks to five collaborators through Go interfaces: a logger, a dispatcher,
  a check-in client, a scheduler and an event reporter. A collaborator is modelled by
  what its methods do to the world outside the gateway: a method is a function that
  takes the world \<open>'w\<close> and returns its results together with the new world. The type
  \<open>'w\<close> is a parameter, so every theorem holds for every implementation of the
  collaborators (the pending-event queue of the reporter, the network and the log are
  all parts of \<open>'w\<close>). Interface values are taken to be present (not nil) and their
  methods to return.
\<close>

text \<open>Go's \<^verbatim>\<open>error\<close> values.\<close>

type_synonym error = string

text \<open>\<^verbatim>\<open>time.Duration\<close> is an int64 count of nanoseconds.\<close>

type_synonym time_Duration = "64 word"

text \<open>
  An action is a value of an interface type, whose zero value is nil: \<open>None\<close> is nil.
\<close>

type_synonym 'a action = "'a option"

text \<open>
  \<^verbatim>\<open>fleetapi.CheckinRequest{Events: ee}\<close> and \<^verbatim>\<open>fleetapi.CheckinResponse\<close> with its field
  \<^verbatim>\<open>Actions\<close>.
\<close>

datatype 'e CheckinRequest = CheckinRequest "'e list"

datatype 'a CheckinResponse = CheckinResponse (Actions: "'a action list")

text \<open>\<^verbatim>\<open>logger.Logger\<close>, of which the gateway calls \<^verbatim>\<open>Debug\<close> and \<^verbatim>\<open>Error\<close>.\<close>

record 'w logger =
  Debug :: "string \<Rightarrow> 'w \<Rightarrow> 'w"
  Error :: "error \<Rightarrow> 'w \<Rightarrow> 'w"

text \<open>\<^verbatim>\<open>type dispatcher interface { Dispatch(...action) error }\<close>\<close>

record ('w, 'a) dispatcher =
  Dispatch :: "'a action list \<Rightarrow> 'w \<Rightarrow> error option \<times> 'w"

text \<open>\<^verbatim>\<open>type agentInfo interface { AgentID() string }\<close>\<close>

record agentInfo =
  AgentID :: string

text \<open>
  \<^verbatim>\<open>type fleetReporter interface { Events() ([]fleetapi.SerializableEvent, func()) }\<close>:
  a call returns the snapshot, the acknowledgment closure (which acts on the world when it
  is invoked) and the world after the call.
\<close>

record ('w, 'e) fleetReporter =
  Events :: "'w \<Rightarrow> ('e list \<times> ('w \<Rightarrow> 'w)) \<times> 'w"

text \<open>
  \<^verbatim>\<open>scheduler.Scheduler\<close>, of which the gateway calls \<^verbatim>\<open>WaitTick()\<close> and \<^verbatim>\<open>Stop()\<close>. The
  channel that \<^verbatim>\<open>WaitTick()\<close> returns is not a value of the model: what is received
  from it is an input of \<open>worker\<close> below.
\<close>

record 'w Scheduler =
  WaitTick :: "'w \<Rightarrow> 'w"
  SchedulerStop :: "'w \<Rightarrow> 'w"

text \<open>
  \<^verbatim>\<open>fleetapi.NewCheckinCmd\<close> and the interface \<^verbatim>\<open>clienter\<close> are declared outside this
  file. The gateway only hands its client on to \<^verbatim>\<open>NewCheckinCmd\<close>, so the type \<open>'c\<close>
  of clients is a parameter, and so is the function \<^verbatim>\<open>NewCheckinCmd\<close> itself: it is the
  first argument of \<open>execute\<close> and of everything that calls it. Of the command that it
  returns the gateway calls \<^verbatim>\<open>Execute\<close>, the round trip: it answers a request with an
  error or with a parsed response. (A round trip that returned neither, a nil response
  with a nil error, is not a value of this type.)
\<close>

record ('w, 'e, 'a) CheckinCmd =
  Execute :: "'e CheckinRequest \<Rightarrow> 'w \<Rightarrow> (error + 'a CheckinResponse) \<times> 'w"

text \<open>A channel of type \<^verbatim>\<open>chan struct{}\<close> on which nothing is ever sent.\<close>

datatype chan = ChanNil | ChanOpen | ChanClosed

text \<open>The struct \<^verbatim>\<open>fleetGateway\<close>; its field \<^verbatim>\<open>done\<close> is \<open>done_ch\<close> here.\<close>

record ('w, 'e, 'a, 'c) fleetGateway =
  log :: "'w logger"
  dispatcher :: "('w, 'a) dispatcher"
  client :: "'c"
  scheduler :: "'w Scheduler"
  agentInfo :: agentInfo
  reporter :: "('w, 'e) fleetReporter"
  done_ch :: chan

record fleetGatewaySettings =
  Duration :: time_Duration
  Jitter :: time_Duration

section \<open>The check-in\<close>

text \<open>
  \<^verbatim>\<open>func (f *fleetGateway) execute() (*fleetapi.CheckinResponse, error)\<close>: the two results
  are one value of a sum type, \<open>Inl\<close> the error (with a nil response) and \<open>Inr\<close> the
  response (with a nil error).
\<close>

definition execute ::
  "(agentInfo \<Rightarrow> 'c \<Rightarrow> ('w, 'e, 'a) CheckinCmd) \<Rightarrow>
   ('w, 'e, 'a, 'c) fleetGateway \<Rightarrow> 'w \<Rightarrow> (error + 'a CheckinResponse) \<times> 'w"
where
  "execute NewCheckinCmd f w =
     (case Events (reporter f) w of
        ((ee, ack), w1) \<Rightarrow>
          let cmd = NewCheckinCmd (agentInfo f) (client f);
              req = CheckinRequest ee
          in (case Execute cmd req w1 of
                (Inl err, w2) \<Rightarrow> (Inl err, w2)
              | (Inr resp, w2) \<Rightarrow> (Inr resp, ack w2)))"

section \<open>The worker loop\<close>

text \<open>
  The conversion of the response's actions, as the loop of the source writes it:
  \<^verbatim>\<open>actions := make([]action, len(resp.Actions))\<close> and then
  \<^verbatim>\<open>for idx, a := range resp.Actions { actions[idx] = a }\<close>.
\<close>

definition make_actions :: "nat \<Rightarrow> 'a action list" where
  "make_actions n = replicate n None"

fun range_assign :: "nat \<Rightarrow> 'a action list \<Rightarrow> 'a action list \<Rightarrow> 'a action list" where
  "range_assign idx [] actions = actions"
| "range_assign idx (a # rest) actions = range_assign (Suc idx) rest (actions[idx := a])"

definition to_actions :: "'a CheckinResponse \<Rightarrow> 'a action list" where
  "to_actions resp = range_assign 0 (Actions resp) (make_actions (length (Actions resp)))"

text \<open>
  The body of \<^verbatim>\<open>case <-f.scheduler.WaitTick():\<close>, one check-in cycle. The
  \<^verbatim>\<open>continue\<close> of the error branch skips the dispatch and the second debug line.
\<close>

definition on_tick ::
  "(agentInfo \<Rightarrow> 'c \<Rightarrow> ('w, 'e, 'a) CheckinCmd) \<Rightarrow> ('w, 'e, 'a, 'c) fleetGateway \<Rightarrow> 'w \<Rightarrow> 'w"
where
  "on_tick NewCheckinCmd f w =
     (let w1 = Debug (log f) ''FleetGateway calling Checkin API'' w
      in (case execute NewCheckinCmd f w1 of
            (Inl err, w2) \<Rightarrow> Error (log f) err w2
          | (Inr resp, w2) \<Rightarrow>
              (let actions = to_actions resp
               in (case Dispatch (dispatcher f) actions w2 of
                     (Some err, w3) \<Rightarrow> Debug (log f) ''FleetGateway sleeping'' (Error (log f) err w3)
                   | (None, w3) \<Rightarrow> Debug (log f) ''FleetGateway sleeping'' w3))))"

text \<open>
  \<^verbatim>\<open>func (f *fleetGateway) worker()\<close>. Which case of the \<^verbatim>\<open>select\<close> fires at each
  iteration is decided outside the gateway (by the scheduler's timer and by whoever
  calls \<^verbatim>\<open>Stop\<close>), so it is an input: the list of the cases selected, one for each
  iteration. When the list is used up, no channel is ready any more and the loop stays
  blocked in its \<^verbatim>\<open>select\<close>. The operand \<^verbatim>\<open>f.scheduler.WaitTick()\<close> is evaluated on
  entering the \<^verbatim>\<open>select\<close>, at every iteration.
\<close>

datatype selected = Tick | Done

datatype outcome = Returned | Blocked

fun worker ::
  "(agentInfo \<Rightarrow> 'c \<Rightarrow> ('w, 'e, 'a) CheckinCmd) \<Rightarrow>
   ('w, 'e, 'a, 'c) fleetGateway \<Rightarrow> selected list \<Rightarrow> 'w \<Rightarrow> outcome \<times> 'w"
where
  "worker NewCheckinCmd f [] w = (Blocked, WaitTick (scheduler f) w)"
| "worker NewCheckinCmd f (Done # sel) w = (Returned, WaitTick (scheduler f) w)"
| "worker NewCheckinCmd f (Tick # sel) w =
     worker NewCheckinCmd f sel (on_tick NewCheckinCmd f (WaitTick (scheduler f) w))"

section \<open>Construction and life cycle\<close>

text \<open>
  A run-time panic of the Go program is a value: a function that can panic returns
  \<open>Inl\<close> of it.
\<close>

datatype panic = NilPointerDereference | CloseOfNilChannel | CloseOfClosedChannel

text \<open>
  \<^verbatim>\<open>newFleetGatewayWithScheduler\<close> returns a pointer and an error: \<open>None\<close> is nil in
  both. The parameter \<^verbatim>\<open>settings\<close> is a pointer, \<open>None\<close> when nil; this constructor
  does not read it. \<^verbatim>\<open>make(chan struct{})\<close> is an open channel.
\<close>

definition newFleetGatewayWithScheduler ::
  "'w logger \<Rightarrow> fleetGatewaySettings option \<Rightarrow> agentInfo \<Rightarrow> 'c \<Rightarrow>
   ('w, 'a) dispatcher \<Rightarrow> 'w Scheduler \<Rightarrow> ('w, 'e) fleetReporter \<Rightarrow>
   ('w, 'e, 'a, 'c) fleetGateway option \<times> error option"
where
  "newFleetGatewayWithScheduler lg settings info c d sched r =
     (Some \<lparr> log = lg, dispatcher = d, client = c, scheduler = sched, agentInfo = info,
             reporter = r, done_ch = ChanOpen \<rparr>,
      None)"

text \<open>
  \<^verbatim>\<open>newFleetGateway\<close> reads \<^verbatim>\<open>settings.Duration\<close> and \<^verbatim>\<open>settings.Jitter\<close>: on a nil
  pointer that is a run-time panic. \<^verbatim>\<open>scheduler.NewPeriodicJitter\<close> is outside this
  file and is the first parameter here.
\<close>

definition newFleetGateway ::
  "(time_Duration \<Rightarrow> time_Duration \<Rightarrow> 'w Scheduler) \<Rightarrow>
   'w logger \<Rightarrow> fleetGatewaySettings option \<Rightarrow> agentInfo \<Rightarrow> 'c \<Rightarrow>
   ('w, 'a) dispatcher \<Rightarrow> ('w, 'e) fleetReporter \<Rightarrow>
   panic + (('w, 'e, 'a, 'c) fleetGateway option \<times> error option)"
where
  "newFleetGateway NewPeriodicJitter lg settings info c d r =
     (case settings of
        None \<Rightarrow> Inl NilPointerDereference
      | Some s \<Rightarrow>
          (let sched = NewPeriodicJitter (Duration s) (Jitter s)
           in Inr (newFleetGatewayWithScheduler lg settings info c d sched r)))"

text \<open>
  \<^verbatim>\<open>func (f *fleetGateway) Start()\<close> is \<^verbatim>\<open>go f.worker()\<close>: it returns the body of the
  goroutine that it launches, which has not run yet, and leaves the world as it is.
\<close>

definition Start ::
  "(agentInfo \<Rightarrow> 'c \<Rightarrow> ('w, 'e, 'a) CheckinCmd) \<Rightarrow>
   ('w, 'e, 'a, 'c) fleetGateway \<Rightarrow> 'w \<Rightarrow> (selected list \<Rightarrow> 'w \<Rightarrow> outcome \<times> 'w) \<times> 'w"
where
  "Start NewCheckinCmd f w = (worker NewCheckinCmd f, w)"

text \<open>
  \<^verbatim>\<open>func (f *fleetGateway) Stop()\<close> is \<^verbatim>\<open>close(f.done)\<close> and then
  \<^verbatim>\<open>f.scheduler.Stop()\<close>. Closing a nil or a closed channel panics, and the scheduler
  is then not reached.
\<close>

definition Stop ::
  "('w, 'e, 'a, 'c) fleetGateway \<Rightarrow> 'w \<Rightarrow> panic + (('w, 'e, 'a, 'c) fleetGateway \<times> 'w)"
where
  "Stop f w =
     (case done_ch f of
        ChanNil \<Rightarrow> Inl CloseOfNilChannel
      | ChanClosed \<Rightarrow> Inl CloseOfClosedChannel
      | ChanOpen \<Rightarrow> Inr (f\<lparr>done_ch := ChanClosed\<rparr>, SchedulerStop (scheduler f) w))"

text \<open>
  A caller's sequence of life-cycle calls on one gateway, run in order; a panic ends it.
\<close>

datatype lifecycle_call = DoStart | DoStop

fun lifecycle ::
  "(agentInfo \<Rightarrow> 'c \<Rightarrow> ('w, 'e, 'a) CheckinCmd) \<Rightarrow>
   ('w, 'e, 'a, 'c) fleetGateway \<Rightarrow> lifecycle_call list \<Rightarrow> 'w \<Rightarrow>
   panic + (('w, 'e, 'a, 'c) fleetGateway \<times> 'w)"
where
  "lifecycle NewCheckinCmd f [] w = Inr (f, w)"
| "lifecycle NewCheckinCmd f (DoStart # calls) w =
     lifecycle NewCheckinCmd f calls (snd (Start NewCheckinCmd f w))"
| "lifecycle NewCheckinCmd f (DoStop # calls) w =
     (case Stop f w of
        Inl p \<Rightarrow> Inl p
      | Inr (f', w') \<Rightarrow> lifecycle NewCheckinCmd f' calls w')"

section \<open>Recording the calls made to the collaborators\<close>

text \<open>
  To speak of which calls the gateway makes and in which order, its collaborators are
  wrapped as a test would wrap them: every method does what the wrapped one does and
  also appends the call to a record kept beside the world. The acknowledgment closure
  that the wrapped \<^verbatim>\<open>Events()\<close> returns records its own invocation, with the snapshot it
  was returned with. The gateway's code is not changed: the theorems run \<open>execute\<close>,
  \<open>worker\<close> and \<open>Stop\<close> themselves on the wrapped gateway.
\<close>

datatype ('e, 'a) call =
    CalledDebug string
  | CalledError error
  | CalledEvents "'e list"
  | CalledAck "'e list"
  | CalledExecute "'e CheckinRequest"
  | CalledDispatch "'a action list"
  | CalledWaitTick
  | CalledSchedulerStop

definition recording ::
  "('w, 'e, 'a, 'c) fleetGateway \<Rightarrow> (('e, 'a) call list \<times> 'w, 'e, 'a, 'c) fleetGateway"
where
  "recording f =
     \<lparr> log =
         \<lparr> Debug = (\<lambda>msg (t, w). (t @ [CalledDebug msg], Debug (log f) msg w)),
           Error = (\<lambda>err (t, w). (t @ [CalledError err], Error (log f) err w)) \<rparr>,
       dispatcher =
         \<lparr> Dispatch = (\<lambda>actions (t, w).
             (case Dispatch (dispatcher f) actions w of
                (res, w') \<Rightarrow> (res, (t @ [CalledDispatch actions], w')))) \<rparr>,
       client = client f,
       scheduler =
         \<lparr> WaitTick = (\<lambda>(t, w). (t @ [CalledWaitTick], WaitTick (scheduler f) w)),
           SchedulerStop = (\<lambda>(t, w). (t @ [CalledSchedulerStop], SchedulerStop (scheduler f) w)) \<rparr>,
       agentInfo = agentInfo f,
       reporter =
         \<lparr> Events = (\<lambda>(t, w).
             (case Events (reporter f) w of
                ((ee, ack), w') \<Rightarrow>
                  ((ee, (\<lambda>(t', w''). (t' @ [CalledAck ee], ack w''))),
                   (t @ [CalledEvents ee], w')))) \<rparr>,
       done_ch = done_ch f \<rparr>"

text \<open>The same for the commands that \<^verbatim>\<open>NewCheckinCmd\<close> builds.\<close>

definition recording_cmd ::
  "(agentInfo \<Rightarrow> 'c \<Rightarrow> ('w, 'e, 'a) CheckinCmd) \<Rightarrow>
   agentInfo \<Rightarrow> 'c \<Rightarrow> (('e, 'a) call list \<times> 'w, 'e, 'a) CheckinCmd"
where
  "recording_cmd NewCheckinCmd info c =
     \<lparr> Execute = (\<lambda>req (t, w).
         (case Execute (NewCheckinCmd info c) req w of
            (res, w') \<Rightarrow> (res, (t @ [CalledExecute req], w')))) \<rparr>"

text \<open>The dispatches and the acknowledgments among the calls recorded.\<close>

fun is_Dispatch :: "('e, 'a) call \<Rightarrow> bool" where
  "is_Dispatch (CalledDispatch actions) = True"
| "is_Dispatch c = False"

fun is_Ack :: "('e, 'a) call \<Rightarrow> bool" where
  "is_Ack (CalledAck ee) = True"
| "is_Ack c = False"

section \<open>Collaborators for concrete runs\<close>

text \<open>
  The theorems below hold for all collaborators. To run the gateway on concrete inputs
  as well, here is one small world with collaborators of its own: the reporter's queue
  of pending events, the replies that the control plane will give to the next round
  trips, the result that the dispatcher will return, the batches dispatched so far, the
  lines logged and whether the scheduler was stopped. Events and actions are numbers.
\<close>

record fake_world =
  pending :: "nat list"
  replies :: "(error + nat CheckinResponse) list"
  dispatch_result :: "error option"
  dispatched :: "nat action list list"
  logged :: "string list"
  stopped :: bool

text \<open>
  Modelled from the spec: the Reporter is missing from the sources. The spec's Reporter
  capability: \<^verbatim>\<open>Events()\<close> returns a snapshot of the pending events and an acknowledgment
  whose later invocation removes exactly those events and no others added afterward.
  The snapshot is the whole queue, and new events are appended at its end, so the
  acknowledgment drops as many events from the front as the snapshot holds. This
  reporter serves the concrete runs only.
\<close>

definition fake_ack :: "nat \<Rightarrow> fake_world \<Rightarrow> fake_world" where
  "fake_ack n w = w\<lparr>pending := drop n (pending w)\<rparr>"

definition fake_reporter :: "(fake_world, nat) fleetReporter" where
  "fake_reporter = \<lparr> Events = (\<lambda>w. ((pending w, fake_ack (length (pending w))), w)) \<rparr>"

text \<open>
  Check-in commands that give the scripted replies in turn, and an error when none is left; a
  dispatcher that notes the batch and returns the scripted result; a logger that keeps
  the lines; a scheduler that notes that it was stopped.
\<close>

definition fake_client :: string where
  "fake_client = ''https://fleet.test''"

definition fake_NewCheckinCmd :: "agentInfo \<Rightarrow> string \<Rightarrow> (fake_world, nat, nat) CheckinCmd" where
  "fake_NewCheckinCmd info c =
     \<lparr> Execute = (\<lambda>req w.
         (case replies w of
            [] \<Rightarrow> (Inl ''unreachable'', w)
          | r # rs \<Rightarrow> (r, w\<lparr>replies := rs\<rparr>))) \<rparr>"

definition fake_dispatcher :: "(fake_world, nat) dispatcher" where
  "fake_dispatcher =
     \<lparr> Dispatch = (\<lambda>actions w. (dispatch_result w, w\<lparr>dispatched := dispatched w @ [actions]\<rparr>)) \<rparr>"

definition fake_logger :: "fake_world logger" where
  "fake_logger =
     \<lparr> Debug = (\<lambda>msg w. w\<lparr>logged := logged w @ [msg]\<rparr>),
       Error = (\<lambda>err w. w\<lparr>logged := logged w @ [err]\<rparr>) \<rparr>"

definition fake_scheduler :: "fake_world Scheduler" where
  "fake_scheduler = \<lparr> WaitTick = (\<lambda>w. w), SchedulerStop = (\<lambda>w. w\<lparr>stopped := True\<rparr>) \<rparr>"

definition fake_NewPeriodicJitter :: "time_Duration \<Rightarrow> time_Duration \<Rightarrow> fake_world Scheduler" where
  "fake_NewPeriodicJitter d variance = fake_scheduler"

definition fake_gateway :: "(fake_world, nat, nat, string) fleetGateway" where
  "fake_gateway =
     \<lparr> log = fake_logger, dispatcher = fake_dispatcher, client = fake_client,
       scheduler = fake_scheduler, agentInfo = \<lparr> AgentID = ''agent-1'' \<rparr>,
       reporter = fake_reporter, done_ch = ChanOpen \<rparr>"

text \<open>
  The scenario of the spec: the events \<open>[1, 2]\<close> are pending and the control plane
  answers with the single action \<open>7\<close>; or it cannot be reached.
\<close>

definition world_ok :: fake_world where
  "world_ok =
     \<lparr> pending = [1, 2], replies = [Inr (CheckinResponse [Some 7])], dispatch_result = None,
       dispatched = [], logged = [], stopped = False \<rparr>"

definition world_down :: fake_world where
  "world_down = world_ok\<lparr>replies := [Inl ''connection refused'']\<rparr>"

definition world_dispatch_fails :: fake_world where
  "world_dispatch_fails = world_ok\<lparr>dispatch_result := Some ''cannot apply''\<rparr>"

section \<open>Who changes the reporter's queue\<close>

text \<open>
  Let \<open>q\<close> read a part of the world, such as the reporter's queue of pending events.
  \<open>reporter_only f q w w'\<close> says that \<open>w'\<close> comes from \<open>w\<close> by steps of three kinds
  only: a step that leaves \<open>q\<close> as it is; a call of the reporter's \<^verbatim>\<open>Events()\<close>; a call
  of \<^verbatim>\<open>Events()\<close> followed, after steps that leave \<open>q\<close> as it is, by the invocation
  of the acknowledgment that this call returned.
\<close>

inductive reporter_only ::
  "('w, 'e, 'a, 'c) fleetGateway \<Rightarrow> ('w \<Rightarrow> 'q) \<Rightarrow> 'w \<Rightarrow> 'w \<Rightarrow> bool"
  for f :: "('w, 'e, 'a, 'c) fleetGateway" and q :: "'w \<Rightarrow> 'q"
where
  untouched: "q w' = q w \<Longrightarrow> reporter_only f q w w'"
| snapshot: "Events (reporter f) w = ((ee, ack), w') \<Longrightarrow> reporter_only f q w w'"
| snapshot_ack:
    "Events (reporter f) w = ((ee, ack), w1) \<Longrightarrow> q w2 = q w1 \<Longrightarrow> reporter_only f q w (ack w2)"
| steps: "reporter_only f q w w' \<Longrightarrow> reporter_only f q w' w'' \<Longrightarrow> reporter_only f q w w''"

section \<open>What the wrapped collaborators do\<close>

lemma recording_log [simp]:
  "Debug (log (recording f)) msg (t, w) = (t @ [CalledDebug msg], Debug (log f) msg w)"
  "Error (log (recording f)) err (t, w) = (t @ [CalledError err], Error (log f) err w)"
  by (simp_all add: recording_def)

lemma recording_Dispatch:
  "Dispatch (dispatcher (recording f)) actions (t, w) =
     (fst (Dispatch (dispatcher f) actions w),
      (t @ [CalledDispatch actions], snd (Dispatch (dispatcher f) actions w)))"
  by (simp add: recording_def split: prod.splits)

lemma recording_scheduler [simp]:
  "WaitTick (scheduler (recording f)) (t, w) = (t @ [CalledWaitTick], WaitTick (scheduler f) w)"
  "SchedulerStop (scheduler (recording f)) (t, w) =
     (t @ [CalledSchedulerStop], SchedulerStop (scheduler f) w)"
  by (simp_all add: recording_def)

lemma recording_done_ch [simp]: "done_ch (recording f) = done_ch f"
  by (simp add: recording_def)

text \<open>
  \<open>execute\<close> on the wrapped gateway does to the world what it does on the gateway
  itself, and records the calls it makes.
\<close>

lemma execute_recording:
  "execute (recording_cmd NewCheckinCmd) (recording f) (t, w) =
     (case Events (reporter f) w of
        ((ee, ack), w1) \<Rightarrow>
          (case Execute (NewCheckinCmd (agentInfo f) (client f)) (CheckinRequest ee) w1 of
             (Inl err, w2) \<Rightarrow>
               (Inl err, (t @ [CalledEvents ee, CalledExecute (CheckinRequest ee)], w2))
           | (Inr resp, w2) \<Rightarrow>
               (Inr resp,
                (t @ [CalledEvents ee, CalledExecute (CheckinRequest ee), CalledAck ee], ack w2))))"
  by (auto simp: execute_def recording_def recording_cmd_def Let_def split: prod.splits sum.splits)

lemma execute_Inr:
  assumes "Events (reporter f) w = ((ee, ack), w1)"
      and "Execute (NewCheckinCmd (agentInfo f) (client f)) (CheckinRequest ee) w1 = (Inr resp, w2)"
  shows "execute NewCheckinCmd f w = (Inr resp, ack w2)"
  using assms by (simp add: execute_def)

lemma execute_Inl:
  assumes "Events (reporter f) w = ((ee, ack), w1)"
      and "Execute (NewCheckinCmd (agentInfo f) (client f)) (CheckinRequest ee) w1 = (Inl err, w2)"
  shows "execute NewCheckinCmd f w = (Inl err, w2)"
  using assms by (simp add: execute_def)

text \<open>The collaborators of the concrete runs.\<close>

lemma fake_Events:
  "Events (reporter fake_gateway) w = ((pending w, fake_ack (length (pending w))), w)"
  by (simp add: fake_gateway_def fake_reporter_def)

lemma fake_round_trip_ok:
  "Execute (fake_NewCheckinCmd (agentInfo fake_gateway) (client fake_gateway)) req world_ok =
     (Inr (CheckinResponse [Some 7]), world_ok\<lparr>replies := []\<rparr>)"
  by (simp add: fake_NewCheckinCmd_def world_ok_def)

lemma fake_round_trip:
  "Execute (fake_NewCheckinCmd (agentInfo fake_gateway) (client fake_gateway)) req w =
     (case replies w of [] \<Rightarrow> (Inl ''unreachable'', w) | r # rs \<Rightarrow> (r, w\<lparr>replies := rs\<rparr>))"
  by (simp add: fake_NewCheckinCmd_def)

lemma fake_log:
  "Debug (log fake_gateway) msg w = w\<lparr>logged := logged w @ [msg]\<rparr>"
  "Error (log fake_gateway) err w = w\<lparr>logged := logged w @ [err]\<rparr>"
  by (simp_all add: fake_gateway_def fake_logger_def)

lemma fake_Dispatch:
  "Dispatch (dispatcher fake_gateway) actions w =
     (dispatch_result w, w\<lparr>dispatched := dispatched w @ [actions]\<rparr>)"
  by (simp add: fake_gateway_def fake_dispatcher_def)

lemma fake_scheduler_calls:
  "WaitTick (scheduler fake_gateway) w = w"
  "SchedulerStop (scheduler fake_gateway) w = w\<lparr>stopped := True\<rparr>"
  by (simp_all add: fake_gateway_def fake_scheduler_def)

text \<open>
  The loop that converts the response's actions copies them, in their order: it fills
  the slots of the new slice from the first to the last.
\<close>

lemma range_assign_take:
  "length actions = idx + length xs \<Longrightarrow> range_assign idx xs actions = take idx actions @ xs"
proof (induction xs arbitrary: idx actions)
  case Nil
  then show ?case by simp
next
  case (Cons a xs)
  have "range_assign (Suc idx) xs (actions[idx := a]) = take (Suc idx) (actions[idx := a]) @ xs"
    using Cons.prems by (intro Cons.IH) simp
  also have "take (Suc idx) (actions[idx := a]) = take idx actions @ [a]"
    using Cons.prems by (simp add: take_Suc_conv_app_nth)
  finally show ?case by simp
qed

lemma to_actions_eq: "to_actions resp = Actions resp"
  by (simp add: to_actions_def make_actions_def range_assign_take)

lemma on_tick_Inl:
  assumes "execute NewCheckinCmd f (Debug (log f) ''FleetGateway calling Checkin API'' w) = (Inl err, w2)"
  shows "on_tick NewCheckinCmd f w = Error (log f) err w2"
  using assms by (simp add: on_tick_def)

lemma on_tick_Inr:
  assumes "execute NewCheckinCmd f (Debug (log f) ''FleetGateway calling Checkin API'' w) = (Inr resp, w2)"
  shows "on_tick NewCheckinCmd f w =
     (case Dispatch (dispatcher f) (Actions resp) w2 of
        (Some err, w3) \<Rightarrow> Debug (log f) ''FleetGateway sleeping'' (Error (log f) err w3)
      | (None, w3) \<Rightarrow> Debug (log f) ''FleetGateway sleeping'' w3)"
  using assms by (simp add: on_tick_def to_actions_eq)

text \<open>
  The wrapped gateway does to the world what the gateway does, and returns what it
  returns: recording the calls changes nothing else.
\<close>

lemma execute_recording_same:
  "fst (execute (recording_cmd NewCheckinCmd) (recording f) (t, w)) = fst (execute NewCheckinCmd f w)
   \<and> snd (snd (execute (recording_cmd NewCheckinCmd) (recording f) (t, w))) =
       snd (execute NewCheckinCmd f w)"
proof -
  obtain ee ack w1 where ev: "Events (reporter f) w = ((ee, ack), w1)"
    by (metis prod.exhaust)
  obtain res w2 where
    rt: "Execute (NewCheckinCmd (agentInfo f) (client f)) (CheckinRequest ee) w1 = (res, w2)"
    by (metis prod.exhaust)
  show ?thesis
  proof (cases res)
    case (Inl err)
    with ev rt have "execute NewCheckinCmd f w = (Inl err, w2)"
      by (simp add: execute_def)
    with Inl ev rt show ?thesis
      by (simp add: execute_recording)
  next
    case (Inr resp)
    with ev rt have "execute NewCheckinCmd f w = (Inr resp, ack w2)"
      by (simp add: execute_def)
    with Inr ev rt show ?thesis
      by (simp add: execute_recording)
  qed
qed

lemma on_tick_recording_same:
  "snd (on_tick (recording_cmd NewCheckinCmd) (recording f) (t, w)) = on_tick NewCheckinCmd f w"
proof -
  let ?m = "''FleetGateway calling Checkin API''"
  obtain r w2 where ex: "execute NewCheckinCmd f (Debug (log f) ?m w) = (r, w2)"
    by (metis prod.exhaust)
  obtain r' t' w2' where exr: "execute (recording_cmd NewCheckinCmd) (recording f)
      (t @ [CalledDebug ?m], Debug (log f) ?m w) = (r', t', w2')"
    by (metis prod.exhaust)
  from execute_recording_same [of NewCheckinCmd f "t @ [CalledDebug ?m]" "Debug (log f) ?m w"] ex exr
  have same: "r' = r" "w2' = w2"
    by simp_all
  show ?thesis
  proof (cases r)
    case (Inl err)
    with ex exr same show ?thesis
      by (simp add: on_tick_def)
  next
    case (Inr resp)
    with ex exr same show ?thesis
      by (simp add: on_tick_def recording_Dispatch split: prod.splits option.splits)
  qed
qed

lemma worker_recording_same:
  "fst (worker (recording_cmd NewCheckinCmd) (recording f) sel (t, w)) = fst (worker NewCheckinCmd f sel w)
   \<and> snd (snd (worker (recording_cmd NewCheckinCmd) (recording f) sel (t, w))) =
       snd (worker NewCheckinCmd f sel w)"
proof (induction sel arbitrary: t w)
  case Nil
  show ?case by simp
next
  case (Cons s sel)
  show ?case
  proof (cases s)
    case Done
    then show ?thesis by simp
  next
    case Tick
    obtain t' w' where ot: "on_tick (recording_cmd NewCheckinCmd) (recording f)
        (t @ [CalledWaitTick], WaitTick (scheduler f) w) = (t', w')"
      by (metis prod.exhaust)
    with on_tick_recording_same [of NewCheckinCmd f "t @ [CalledWaitTick]" "WaitTick (scheduler f) w"]
    have "w' = on_tick NewCheckinCmd f (WaitTick (scheduler f) w)"
      by simp
    with Tick ot Cons.IH [of t' w'] show ?thesis
      by simp
  qed
qed

section \<open>The check-in: acknowledgment\<close>

text \<open>
  Claim C1. Let \<^verbatim>\<open>Events()\<close> return the snapshot \<open>ee\<close> and the acknowledgment \<open>ack\<close>,
  and let the round trip with the request built from \<open>ee\<close> return \<open>res\<close>. When \<open>res\<close>
  is a response, \<open>execute\<close> returns that response and no error, and the world it leaves
  is \<open>ack\<close> applied to the world that the round trip left: the calls it makes are
  \<^verbatim>\<open>Events()\<close>, the round trip, and then the acknowledgment, once and last. Whatever
  \<open>res\<close> is, an acknowledgment among the calls of \<open>execute\<close> means that the round trip
  returned a response, and the snapshot is acknowledged at most once.
\<close>

theorem execute_acknowledges_once_after_success:
  assumes ev: "Events (reporter f) w = ((ee, ack), w1)"
      and rt: "Execute (NewCheckinCmd (agentInfo f) (client f)) (CheckinRequest ee) w1 = (res, w2)"
  shows "(\<forall>resp. res = Inr resp \<longrightarrow>
            execute NewCheckinCmd f w = (Inr resp, ack w2) \<and>
            execute (recording_cmd NewCheckinCmd) (recording f) ([], w) =
              (Inr resp, [CalledEvents ee, CalledExecute (CheckinRequest ee), CalledAck ee], ack w2))
       \<and> (filter is_Ack (fst (snd (execute (recording_cmd NewCheckinCmd) (recording f) ([], w))))
              \<noteq> [] \<longrightarrow>
            (\<exists>resp. res = Inr resp))
       \<and> length (filter is_Ack
             (fst (snd (execute (recording_cmd NewCheckinCmd) (recording f) ([], w))))) \<le> 1"
proof (cases res)
  case (Inl err)
  with ev rt have "execute (recording_cmd NewCheckinCmd) (recording f) ([], w) =
      (Inl err, [CalledEvents ee, CalledExecute (CheckinRequest ee)], w2)"
    by (simp add: execute_recording)
  with Inl show ?thesis by simp
next
  case (Inr resp)
  with ev rt have "execute (recording_cmd NewCheckinCmd) (recording f) ([], w) =
      (Inr resp, [CalledEvents ee, CalledExecute (CheckinRequest ee), CalledAck ee], ack w2)"
    by (simp add: execute_recording)
  moreover from Inr ev rt have "execute NewCheckinCmd f w = (Inr resp, ack w2)"
    by (simp add: execute_Inr)
  ultimately show ?thesis using Inr by simp
qed

text \<open>
  The scenario of the spec: with the events \<open>[1, 2]\<close> pending and a control plane that
  answers, \<open>execute\<close> returns the response and the queue is empty afterwards.
\<close>

theorem execute_acknowledges_once_after_success_witness:
  "execute fake_NewCheckinCmd fake_gateway world_ok =
     (Inr (CheckinResponse [Some 7]), world_ok\<lparr>pending := [], replies := []\<rparr>)
   \<and> execute (recording_cmd fake_NewCheckinCmd) (recording fake_gateway) ([], world_ok) =
     (Inr (CheckinResponse [Some 7]),
      [CalledEvents [1, 2], CalledExecute (CheckinRequest [1, 2]), CalledAck [1, 2]],
      world_ok\<lparr>pending := [], replies := []\<rparr>)"
proof -
  have ev: "Events (reporter fake_gateway) world_ok =
      ((pending world_ok, fake_ack (length (pending world_ok))), world_ok)"
    by (rule fake_Events)
  have rt: "Execute (fake_NewCheckinCmd (agentInfo fake_gateway) (client fake_gateway))
      (CheckinRequest (pending world_ok)) world_ok =
      (Inr (CheckinResponse [Some 7]), world_ok\<lparr>replies := []\<rparr>)"
    by (rule fake_round_trip_ok)
  from execute_acknowledges_once_after_success [where NewCheckinCmd = fake_NewCheckinCmd, OF ev rt]
  show ?thesis
    by (simp add: fake_ack_def world_ok_def)
qed

text \<open>
  Claim C2. Let \<^verbatim>\<open>Events()\<close> return the snapshot \<open>ee\<close> and the acknowledgment \<open>ack\<close>,
  and let the round trip return the error \<open>err\<close>, leaving the world \<open>w2\<close>. Then
  \<open>execute\<close> returns that error and no response; the calls it makes are \<^verbatim>\<open>Events()\<close>
  and the round trip, and the acknowledgment is not among them; the world it leaves is
  \<open>w2\<close> itself, so whatever was pending when the round trip returned still is. In a
  cycle of the worker loop that starts in \<open>w0\<close> (the check-in happens after the first
  debug line), the error is logged and \<^verbatim>\<open>Dispatch\<close> is not called.
\<close>

theorem checkin_error_no_ack_no_dispatch:
  assumes ev: "Events (reporter f) w = ((ee, ack), w1)"
      and rt: "Execute (NewCheckinCmd (agentInfo f) (client f)) (CheckinRequest ee) w1 = (Inl err, w2)"
  shows "execute NewCheckinCmd f w = (Inl err, w2)
       \<and> execute (recording_cmd NewCheckinCmd) (recording f) ([], w) =
           (Inl err, [CalledEvents ee, CalledExecute (CheckinRequest ee)], w2)
       \<and> (\<forall>w0. w = Debug (log f) ''FleetGateway calling Checkin API'' w0 \<longrightarrow>
            on_tick NewCheckinCmd f w0 = Error (log f) err w2 \<and>
            on_tick (recording_cmd NewCheckinCmd) (recording f) ([], w0) =
              ([CalledDebug ''FleetGateway calling Checkin API'', CalledEvents ee,
                CalledExecute (CheckinRequest ee), CalledError err],
               Error (log f) err w2) \<and>
            filter is_Dispatch
              (fst (on_tick (recording_cmd NewCheckinCmd) (recording f) ([], w0))) = [] \<and>
            filter is_Ack
              (fst (on_tick (recording_cmd NewCheckinCmd) (recording f) ([], w0))) = [])"
proof -
  have plain: "execute NewCheckinCmd f w = (Inl err, w2)"
    using ev rt by (rule execute_Inl)
  have rec: "execute (recording_cmd NewCheckinCmd) (recording f) (t, w) =
      (Inl err, t @ [CalledEvents ee, CalledExecute (CheckinRequest ee)], w2)" for t
    using ev rt by (simp add: execute_recording)
  have cycle: "on_tick NewCheckinCmd f w0 = Error (log f) err w2 \<and>
      on_tick (recording_cmd NewCheckinCmd) (recording f) ([], w0) =
        ([CalledDebug ''FleetGateway calling Checkin API'', CalledEvents ee,
          CalledExecute (CheckinRequest ee), CalledError err],
         Error (log f) err w2)"
    if w: "w = Debug (log f) ''FleetGateway calling Checkin API'' w0" for w0
  proof
    show "on_tick NewCheckinCmd f w0 = Error (log f) err w2"
      using plain w by (simp add: on_tick_Inl)
    have "execute (recording_cmd NewCheckinCmd) (recording f)
          (Debug (log (recording f)) ''FleetGateway calling Checkin API'' ([], w0)) =
        (Inl err, [CalledDebug ''FleetGateway calling Checkin API''] @
          [CalledEvents ee, CalledExecute (CheckinRequest ee)], w2)"
      using rec [of "[CalledDebug ''FleetGateway calling Checkin API'']"] w by simp
    then show "on_tick (recording_cmd NewCheckinCmd) (recording f) ([], w0) =
        ([CalledDebug ''FleetGateway calling Checkin API'', CalledEvents ee,
          CalledExecute (CheckinRequest ee), CalledError err],
         Error (log f) err w2)"
      by (simp add: on_tick_Inl)
  qed
  from plain rec [of "[]"] cycle show ?thesis by simp
qed

text \<open>
  The scenario of the spec: with the events \<open>[1, 2]\<close> pending and a control plane that
  cannot be reached, the cycle logs the error, the queue still holds \<open>[1, 2]\<close> and
  nothing was dispatched.
\<close>

theorem checkin_error_no_ack_no_dispatch_witness:
  "on_tick (recording_cmd fake_NewCheckinCmd) (recording fake_gateway) ([], world_down) =
     ([CalledDebug ''FleetGateway calling Checkin API'', CalledEvents [1, 2],
       CalledExecute (CheckinRequest [1, 2]), CalledError ''connection refused''],
      world_down\<lparr>replies := [],
        logged := [''FleetGateway calling Checkin API'', ''connection refused'']\<rparr>)
   \<and> pending (on_tick fake_NewCheckinCmd fake_gateway world_down) = [1, 2]
   \<and> dispatched (on_tick fake_NewCheckinCmd fake_gateway world_down) = []"
proof -
  let ?w = "Debug (log fake_gateway) ''FleetGateway calling Checkin API'' world_down"
  have ev: "Events (reporter fake_gateway) ?w = ((pending ?w, fake_ack (length (pending ?w))), ?w)"
    by (rule fake_Events)
  have rt: "Execute (fake_NewCheckinCmd (agentInfo fake_gateway) (client fake_gateway))
        (CheckinRequest (pending ?w)) ?w =
      (Inl ''connection refused'', ?w\<lparr>replies := []\<rparr>)"
    by (simp add: fake_round_trip fake_log world_down_def world_ok_def)
  from checkin_error_no_ack_no_dispatch [where NewCheckinCmd = fake_NewCheckinCmd, OF ev rt]
  show ?thesis
    by (simp add: fake_log world_down_def world_ok_def)
qed

section \<open>The worker loop: dispatch\<close>

text \<open>
  Claim C3. In a cycle of the worker loop whose check-in returns the response \<open>resp\<close>,
  the calls made are: the debug line, \<^verbatim>\<open>Events()\<close>, the round trip, the acknowledgment,
  \<^verbatim>\<open>Dispatch\<close> with the actions of \<open>resp\<close> as they stand in the response (the empty
  batch when there are none), an error line when \<^verbatim>\<open>Dispatch\<close> returned an error, and the
  second debug line. \<^verbatim>\<open>Dispatch\<close> is called exactly once in the cycle.
\<close>

theorem on_tick_dispatches_response_actions_once:
  assumes ev: "Events (reporter f) (Debug (log f) ''FleetGateway calling Checkin API'' w) = ((ee, ack), w1)"
      and rt: "Execute (NewCheckinCmd (agentInfo f) (client f)) (CheckinRequest ee) w1 = (Inr resp, w2)"
      and dp: "Dispatch (dispatcher f) (Actions resp) (ack w2) = (res, w3)"
  shows "fst (on_tick (recording_cmd NewCheckinCmd) (recording f) ([], w)) =
           [CalledDebug ''FleetGateway calling Checkin API'', CalledEvents ee,
            CalledExecute (CheckinRequest ee), CalledAck ee, CalledDispatch (Actions resp)]
           @ (case res of Some err \<Rightarrow> [CalledError err] | None \<Rightarrow> [])
           @ [CalledDebug ''FleetGateway sleeping'']
       \<and> filter is_Dispatch (fst (on_tick (recording_cmd NewCheckinCmd) (recording f) ([], w))) =
           [CalledDispatch (Actions resp)]"
proof -
  let ?t = "[CalledDebug ''FleetGateway calling Checkin API'', CalledEvents ee,
             CalledExecute (CheckinRequest ee), CalledAck ee]"
  have ex: "execute (recording_cmd NewCheckinCmd) (recording f)
        (Debug (log (recording f)) ''FleetGateway calling Checkin API'' ([], w)) =
      (Inr resp, ?t, ack w2)"
    using ev rt by (simp add: execute_recording)
  have calls: "fst (on_tick (recording_cmd NewCheckinCmd) (recording f) ([], w)) =
      ?t @ [CalledDispatch (Actions resp)]
      @ (case res of Some err \<Rightarrow> [CalledError err] | None \<Rightarrow> [])
      @ [CalledDebug ''FleetGateway sleeping'']"
    using dp by (cases res) (simp_all add: on_tick_Inr [OF ex] recording_Dispatch)
  have "filter is_Dispatch (fst (on_tick (recording_cmd NewCheckinCmd) (recording f) ([], w))) =
      [CalledDispatch (Actions resp)]"
    unfolding calls by (cases res) simp_all
  with calls show ?thesis by simp
qed

text \<open>The scenario of the spec: the response carries the action \<open>7\<close>.\<close>

theorem on_tick_dispatches_response_actions_once_witness:
  "fst (on_tick (recording_cmd fake_NewCheckinCmd) (recording fake_gateway) ([], world_ok)) =
     [CalledDebug ''FleetGateway calling Checkin API'', CalledEvents [1, 2],
      CalledExecute (CheckinRequest [1, 2]), CalledAck [1, 2], CalledDispatch [Some 7],
      CalledDebug ''FleetGateway sleeping'']
   \<and> filter is_Dispatch
         (fst (on_tick (recording_cmd fake_NewCheckinCmd) (recording fake_gateway) ([], world_ok))) =
       [CalledDispatch [Some 7]]"
proof -
  let ?w = "Debug (log fake_gateway) ''FleetGateway calling Checkin API'' world_ok"
  let ?w2 = "?w\<lparr>replies := []\<rparr>"
  let ?ack = "fake_ack (length (pending ?w))"
  have ev: "Events (reporter fake_gateway) ?w = ((pending ?w, ?ack), ?w)"
    by (rule fake_Events)
  have rt: "Execute (fake_NewCheckinCmd (agentInfo fake_gateway) (client fake_gateway))
        (CheckinRequest (pending ?w)) ?w =
      (Inr (CheckinResponse [Some 7]), ?w2)"
    by (simp add: fake_round_trip fake_log world_ok_def)
  have dp: "Dispatch (dispatcher fake_gateway) (Actions (CheckinResponse [Some 7])) (?ack ?w2) =
      (None, (?ack ?w2)\<lparr>dispatched := [[Some 7]]\<rparr>)"
    by (simp add: fake_Dispatch fake_log fake_ack_def world_ok_def)
  from on_tick_dispatches_response_actions_once
    [where NewCheckinCmd = fake_NewCheckinCmd, OF ev rt dp]
  show ?thesis
    by (simp add: fake_log world_ok_def)
qed

text \<open>
  Claim C4. In an iteration of the worker loop whose check-in succeeds and whose
  \<^verbatim>\<open>Dispatch\<close> returns the error \<open>err\<close>, leaving the world \<open>w3\<close>: the loop goes on
  with the rest of its iterations from the world in which \<open>err\<close> and the second debug
  line were logged on top of \<open>w3\<close>, and nothing else was done (\<open>w3\<close> is what
  \<^verbatim>\<open>Dispatch\<close> made of the acknowledged world: the acknowledgment stands). After this
  single tick the loop has not returned: it waits in its \<^verbatim>\<open>select\<close> again. The calls of
  the iteration end with \<^verbatim>\<open>Dispatch\<close>, the error line, the debug line and the next
  \<^verbatim>\<open>WaitTick()\<close>; no call to the reporter follows the acknowledgment.
\<close>

theorem dispatch_error_logged_only:
  assumes ev: "Events (reporter f)
        (Debug (log f) ''FleetGateway calling Checkin API'' (WaitTick (scheduler f) w)) = ((ee, ack), w1)"
      and rt: "Execute (NewCheckinCmd (agentInfo f) (client f)) (CheckinRequest ee) w1 = (Inr resp, w2)"
      and dp: "Dispatch (dispatcher f) (Actions resp) (ack w2) = (Some err, w3)"
  shows "worker NewCheckinCmd f (Tick # sel) w =
           worker NewCheckinCmd f sel (Debug (log f) ''FleetGateway sleeping'' (Error (log f) err w3))
       \<and> fst (worker NewCheckinCmd f [Tick] w) = Blocked
       \<and> fst (snd (worker (recording_cmd NewCheckinCmd) (recording f) [Tick] ([], w))) =
           [CalledWaitTick, CalledDebug ''FleetGateway calling Checkin API'', CalledEvents ee,
            CalledExecute (CheckinRequest ee), CalledAck ee, CalledDispatch (Actions resp),
            CalledError err, CalledDebug ''FleetGateway sleeping'', CalledWaitTick]"
proof -
  let ?w = "WaitTick (scheduler f) w"
  have ex: "execute NewCheckinCmd f (Debug (log f) ''FleetGateway calling Checkin API'' ?w) =
      (Inr resp, ack w2)"
    using ev rt by (rule execute_Inr)
  have tick: "on_tick NewCheckinCmd f ?w = Debug (log f) ''FleetGateway sleeping'' (Error (log f) err w3)"
    using dp by (simp add: on_tick_Inr [OF ex])
  have exr: "execute (recording_cmd NewCheckinCmd) (recording f)
        (Debug (log (recording f)) ''FleetGateway calling Checkin API'' ([CalledWaitTick], ?w)) =
      (Inr resp,
       [CalledWaitTick, CalledDebug ''FleetGateway calling Checkin API'', CalledEvents ee,
        CalledExecute (CheckinRequest ee), CalledAck ee],
       ack w2)"
    using ev rt by (simp add: execute_recording)
  have calls: "on_tick (recording_cmd NewCheckinCmd) (recording f) ([CalledWaitTick], ?w) =
      ([CalledWaitTick, CalledDebug ''FleetGateway calling Checkin API'', CalledEvents ee,
        CalledExecute (CheckinRequest ee), CalledAck ee, CalledDispatch (Actions resp),
        CalledError err, CalledDebug ''FleetGateway sleeping''],
       Debug (log f) ''FleetGateway sleeping'' (Error (log f) err w3))"
    using dp by (simp add: on_tick_Inr [OF exr] recording_Dispatch)
  show ?thesis
    by (simp add: tick calls)
qed

text \<open>
  With a dispatcher that fails, the events \<open>[1, 2]\<close> are gone from the queue after the
  first tick, and the second tick sends an empty snapshot: they are not sent again.
\<close>

theorem dispatch_error_logged_only_witness:
  "worker fake_NewCheckinCmd fake_gateway [Tick] world_dispatch_fails =
     (Blocked,
      world_dispatch_fails\<lparr>pending := [], replies := [], dispatched := [[Some 7]],
        logged := [''FleetGateway calling Checkin API'', ''cannot apply'', ''FleetGateway sleeping'']\<rparr>)
   \<and> fst (snd (worker (recording_cmd fake_NewCheckinCmd) (recording fake_gateway) [Tick, Tick]
         ([], world_dispatch_fails))) =
     [CalledWaitTick, CalledDebug ''FleetGateway calling Checkin API'', CalledEvents [1, 2],
      CalledExecute (CheckinRequest [1, 2]), CalledAck [1, 2], CalledDispatch [Some 7],
      CalledError ''cannot apply'', CalledDebug ''FleetGateway sleeping'',
      CalledWaitTick, CalledDebug ''FleetGateway calling Checkin API'', CalledEvents [],
      CalledExecute (CheckinRequest []), CalledError ''unreachable'', CalledWaitTick]"
proof -
  let ?w = "Debug (log fake_gateway) ''FleetGateway calling Checkin API''
    (WaitTick (scheduler fake_gateway) world_dispatch_fails)"
  let ?w2 = "?w\<lparr>replies := []\<rparr>"
  let ?ack = "fake_ack (length (pending ?w))"
  have ev: "Events (reporter fake_gateway) ?w = ((pending ?w, ?ack), ?w)"
    by (rule fake_Events)
  have rt: "Execute (fake_NewCheckinCmd (agentInfo fake_gateway) (client fake_gateway))
        (CheckinRequest (pending ?w)) ?w =
      (Inr (CheckinResponse [Some 7]), ?w2)"
    by (simp add: fake_round_trip fake_log fake_scheduler_calls world_dispatch_fails_def world_ok_def)
  have dp: "Dispatch (dispatcher fake_gateway) (Actions (CheckinResponse [Some 7])) (?ack ?w2) =
      (Some ''cannot apply'', (?ack ?w2)\<lparr>dispatched := [[Some 7]]\<rparr>)"
    by (simp add: fake_Dispatch fake_log fake_scheduler_calls fake_ack_def
        world_dispatch_fails_def world_ok_def)
  have second: "fst (snd (worker (recording_cmd fake_NewCheckinCmd) (recording fake_gateway) [Tick, Tick]
      ([], world_dispatch_fails))) =
     [CalledWaitTick, CalledDebug ''FleetGateway calling Checkin API'', CalledEvents [1, 2],
      CalledExecute (CheckinRequest [1, 2]), CalledAck [1, 2], CalledDispatch [Some 7],
      CalledError ''cannot apply'', CalledDebug ''FleetGateway sleeping'',
      CalledWaitTick, CalledDebug ''FleetGateway calling Checkin API'', CalledEvents [],
      CalledExecute (CheckinRequest []), CalledError ''unreachable'', CalledWaitTick]"
    by (simp add: on_tick_def execute_recording recording_Dispatch to_actions_eq fake_Events
        fake_round_trip fake_log fake_Dispatch fake_scheduler_calls fake_ack_def
        world_dispatch_fails_def world_ok_def)
  from dispatch_error_logged_only
    [where NewCheckinCmd = fake_NewCheckinCmd and sel = "[]", OF ev rt dp] second
  show ?thesis
    by (simp add: fake_log fake_scheduler_calls fake_ack_def world_dispatch_fails_def world_ok_def)
qed

section \<open>The stop signal and the start\<close>

text \<open>
  Once the \<^verbatim>\<open>select\<close> takes the case of the done channel, the loop returns: the cases
  that would have been selected afterwards play no part, so no check-in is started
  after that. The loop returns exactly when that case is selected at some iteration.
\<close>

lemma worker_returns_at_Done:
  "worker NewCheckinCmd f (sel @ Done # sel') w = worker NewCheckinCmd f (sel @ [Done]) w"
proof (induction sel arbitrary: w)
  case Nil
  show ?case by simp
next
  case (Cons s sel)
  then show ?case by (cases s) simp_all
qed

lemma worker_Returned_iff: "fst (worker NewCheckinCmd f sel w) = Returned \<longleftrightarrow> Done \<in> set sel"
proof (induction sel arbitrary: w)
  case Nil
  show ?case by simp
next
  case (Cons s sel)
  then show ?case by (cases s) simp_all
qed

text \<open>
  \<^verbatim>\<open>Start\<close> calls no collaborator: it hands the loop over to a new goroutine and
  returns.
\<close>

lemma Start_makes_no_call: "Start (recording_cmd NewCheckinCmd) (recording f) (t, w) =
     (worker (recording_cmd NewCheckinCmd) (recording f), (t, w))"
  by (simp add: Start_def)

section \<open>Stopping once\<close>

lemma Start_world: "snd (Start NewCheckinCmd f w) = w"
  by (simp add: Start_def)

lemma Stop_open:
  "done_ch f = ChanOpen \<Longrightarrow>
   Stop f w = Inr (f\<lparr>done_ch := ChanClosed\<rparr>, SchedulerStop (scheduler f) w)"
  by (simp add: Stop_def)

lemma Stop_closed: "done_ch f = ChanClosed \<Longrightarrow> Stop f w = Inl CloseOfClosedChannel"
  by (simp add: Stop_def)

lemma lifecycle_without_Stop: "DoStop \<notin> set calls \<Longrightarrow> lifecycle NewCheckinCmd f calls w = Inr (f, w)"
proof (induction calls)
  case Nil
  show ?case by simp
next
  case (Cons c calls)
  then have "c = DoStart" and "DoStop \<notin> set calls"
    by (cases c; simp)+
  with Cons.IH show ?case by (simp add: Start_world)
qed

lemma lifecycle_one_Stop:
  assumes "done_ch f = ChanOpen" and "count_list calls DoStop \<le> 1"
  shows "lifecycle NewCheckinCmd f calls w =
     (if DoStop \<in> set calls
      then Inr (f\<lparr>done_ch := ChanClosed\<rparr>, SchedulerStop (scheduler f) w)
      else Inr (f, w))"
  using assms
proof (induction calls)
  case Nil
  show ?case by simp
next
  case (Cons c calls)
  show ?case
  proof (cases c)
    case DoStart
    with Cons show ?thesis by (simp add: Start_world)
  next
    case DoStop
    with Cons.prems have "count_list calls DoStop = 0"
      by simp
    then have "DoStop \<notin> set calls"
      by (simp add: count_list_0_iff)
    then have "lifecycle NewCheckinCmd (f\<lparr>done_ch := ChanClosed\<rparr>) calls (SchedulerStop (scheduler f) w) =
        Inr (f\<lparr>done_ch := ChanClosed\<rparr>, SchedulerStop (scheduler f) w)"
      by (rule lifecycle_without_Stop)
    with DoStop Cons.prems(1) show ?thesis
      by (simp add: Stop_open)
  qed
qed

lemma new_fake_gateway:
  "newFleetGatewayWithScheduler fake_logger settings \<lparr> AgentID = ''agent-1'' \<rparr> fake_client
     fake_dispatcher fake_scheduler fake_reporter = (Some fake_gateway, None)"
  by (simp add: newFleetGatewayWithScheduler_def fake_gateway_def)

text \<open>
  Claim C8. Let \<open>f\<close> be a gateway as the constructor returns it, and let a caller make
  any sequence of \<^verbatim>\<open>Start\<close> and \<^verbatim>\<open>Stop\<close> calls on it in which \<^verbatim>\<open>Stop\<close> occurs at most once.
  Then \<^verbatim>\<open>Stop\<close> completes: it closes the done channel and calls the scheduler's
  \<^verbatim>\<open>Stop()\<close>, and the sequence ends without a panic; in particular the panic of
  closing a closed channel does not happen.
\<close>

theorem Stop_once_completes:
  assumes new: "newFleetGatewayWithScheduler lg settings info c d sched r = (Some f, e)"
      and once: "count_list calls DoStop \<le> 1"
  shows "Stop f w = Inr (f\<lparr>done_ch := ChanClosed\<rparr>, SchedulerStop sched w)
       \<and> lifecycle NewCheckinCmd f calls w =
           (if DoStop \<in> set calls
            then Inr (f\<lparr>done_ch := ChanClosed\<rparr>, SchedulerStop sched w)
            else Inr (f, w))
       \<and> lifecycle NewCheckinCmd f calls w \<noteq> Inl CloseOfClosedChannel"
proof -
  from new have opn: "done_ch f = ChanOpen" and sched: "scheduler f = sched"
    by (auto simp: newFleetGatewayWithScheduler_def)
  have "Stop f w = Inr (f\<lparr>done_ch := ChanClosed\<rparr>, SchedulerStop sched w)"
    using Stop_open [OF opn, of w] sched by simp
  moreover have "lifecycle NewCheckinCmd f calls w =
      (if DoStop \<in> set calls
       then Inr (f\<lparr>done_ch := ChanClosed\<rparr>, SchedulerStop sched w)
       else Inr (f, w))"
    using lifecycle_one_Stop [where NewCheckinCmd = NewCheckinCmd and w = w, OF opn once] sched
    by simp
  ultimately show ?thesis by simp
qed

theorem Stop_once_completes_witness:
  "lifecycle fake_NewCheckinCmd fake_gateway [DoStart, DoStop, DoStart] world_ok =
     Inr (fake_gateway\<lparr>done_ch := ChanClosed\<rparr>, world_ok\<lparr>stopped := True\<rparr>)"
proof -
  have once: "count_list [DoStart, DoStop, DoStart] DoStop \<le> 1"
    by simp
  from Stop_once_completes
    [where NewCheckinCmd = fake_NewCheckinCmd and w = world_ok, OF new_fake_gateway once]
  show ?thesis
    by (simp add: fake_scheduler_def)
qed

text \<open>Without the precondition the panic is reached: the second \<^verbatim>\<open>Stop\<close> panics.\<close>

lemma Stop_twice_panics:
  assumes "newFleetGatewayWithScheduler lg settings info c d sched r = (Some f, e)"
  shows "lifecycle NewCheckinCmd f [DoStop, DoStop] w = Inl CloseOfClosedChannel"
  using assms by (auto simp: newFleetGatewayWithScheduler_def Stop_def)

section \<open>Construction\<close>

text \<open>
  Claim C9, as amended. \<^verbatim>\<open>newFleetGatewayWithScheduler\<close> returns a gateway (not nil)
  and a nil error for every combination of arguments; \<^verbatim>\<open>newFleetGateway\<close> does so for
  every combination of arguments in which \<^verbatim>\<open>settings\<close> is not nil, and the scheduler of
  the gateway is then the one that \<^verbatim>\<open>NewPeriodicJitter\<close> makes of \<^verbatim>\<open>settings.Duration\<close>
  and \<^verbatim>\<open>settings.Jitter\<close>. Both constructors store the collaborators that they are
  given and call none of them.
\<close>

theorem constructors_return_a_gateway:
  "newFleetGatewayWithScheduler lg settings info c d sched r =
     (Some \<lparr> log = lg, dispatcher = d, client = c, scheduler = sched, agentInfo = info,
             reporter = r, done_ch = ChanOpen \<rparr>, None)
   \<and> newFleetGateway NewPeriodicJitter lg (Some s) info c d r =
     Inr (Some \<lparr> log = lg, dispatcher = d, client = c,
                 scheduler = NewPeriodicJitter (Duration s) (Jitter s), agentInfo = info,
                 reporter = r, done_ch = ChanOpen \<rparr>, None)"
  by (simp add: newFleetGateway_def newFleetGatewayWithScheduler_def)

text \<open>
  Claim C9 as it is stated fails for \<^verbatim>\<open>newFleetGateway\<close> on a nil \<^verbatim>\<open>settings\<close>: reading
  \<^verbatim>\<open>settings.Duration\<close> panics and nothing is returned.
\<close>

theorem newFleetGateway_nil_settings_panics:
  "newFleetGateway fake_NewPeriodicJitter fake_logger None \<lparr> AgentID = ''agent-1'' \<rparr> fake_client
     fake_dispatcher fake_reporter = Inl NilPointerDereference"
  by (simp add: newFleetGateway_def)

section \<open>The reporter's queue is reached through the reporter only\<close>

lemma reporter_only_execute:
  assumes cl: "\<And>info c req w. q (snd (Execute (NewCheckinCmd info c) req w)) = q w"
  shows "reporter_only f q w (snd (execute NewCheckinCmd f w))"
proof -
  obtain ee ack w1 where ev: "Events (reporter f) w = ((ee, ack), w1)"
    by (metis prod.exhaust)
  obtain res w2 where rt: "Execute (NewCheckinCmd (agentInfo f) (client f)) (CheckinRequest ee) w1 = (res, w2)"
    by (metis prod.exhaust)
  have "w2 = snd (Execute (NewCheckinCmd (agentInfo f) (client f)) (CheckinRequest ee) w1)"
    using rt by simp
  then have q2: "q w2 = q w1"
    by (simp add: cl)
  show ?thesis
  proof (cases res)
    case (Inl err)
    with ev rt have "snd (execute NewCheckinCmd f w) = w2"
      by (simp add: execute_Inl)
    moreover have "reporter_only f q w w1"
      using ev by (rule snapshot)
    moreover have "reporter_only f q w1 w2"
      using q2 by (rule untouched)
    ultimately show ?thesis
      by (auto intro: steps)
  next
    case (Inr resp)
    with ev rt have "snd (execute NewCheckinCmd f w) = ack w2"
      by (simp add: execute_Inr)
    moreover have "reporter_only f q w (ack w2)"
      using ev q2 by (rule snapshot_ack)
    ultimately show ?thesis by simp
  qed
qed

lemma reporter_only_on_tick:
  assumes lg1: "\<And>msg w. q (Debug (log f) msg w) = q w"
      and lg2: "\<And>err w. q (Error (log f) err w) = q w"
      and dp: "\<And>actions w. q (snd (Dispatch (dispatcher f) actions w)) = q w"
      and cl: "\<And>info c req w. q (snd (Execute (NewCheckinCmd info c) req w)) = q w"
  shows "reporter_only f q w (on_tick NewCheckinCmd f w)"
proof -
  let ?w1 = "Debug (log f) ''FleetGateway calling Checkin API'' w"
  obtain res w2 where ex: "execute NewCheckinCmd f ?w1 = (res, w2)"
    by (metis prod.exhaust)
  have a: "reporter_only f q w ?w1"
    by (rule untouched) (rule lg1)
  have b: "reporter_only f q ?w1 w2"
    using reporter_only_execute [of q NewCheckinCmd f ?w1, OF cl] ex by simp
  have c: "q (on_tick NewCheckinCmd f w) = q w2"
  proof (cases res)
    case (Inl err)
    with ex show ?thesis by (simp add: on_tick_Inl lg2)
  next
    case (Inr resp)
    obtain r w3 where d: "Dispatch (dispatcher f) (Actions resp) w2 = (r, w3)"
      by (metis prod.exhaust)
    then have "q w3 = q w2"
      using dp [of "Actions resp" w2] by simp
    with Inr ex d show ?thesis
      by (cases r) (simp_all add: on_tick_Inr lg1 lg2)
  qed
  from a b untouched [of q "on_tick NewCheckinCmd f w" w2 f, OF c] show ?thesis
    by (blast intro: steps)
qed

lemma reporter_only_worker:
  assumes lg1: "\<And>msg w. q (Debug (log f) msg w) = q w"
      and lg2: "\<And>err w. q (Error (log f) err w) = q w"
      and dp: "\<And>actions w. q (snd (Dispatch (dispatcher f) actions w)) = q w"
      and cl: "\<And>info c req w. q (snd (Execute (NewCheckinCmd info c) req w)) = q w"
      and sc: "\<And>w. q (WaitTick (scheduler f) w) = q w"
  shows "reporter_only f q w (snd (worker NewCheckinCmd f sel w))"
proof (induction sel arbitrary: w)
  case Nil
  show ?case by (simp add: untouched sc)
next
  case (Cons s sel)
  show ?case
  proof (cases s)
    case Done
    then show ?thesis by (simp add: untouched sc)
  next
    case Tick
    let ?w1 = "WaitTick (scheduler f) w"
    have "reporter_only f q w ?w1"
      by (rule untouched) (rule sc)
    moreover have "reporter_only f q ?w1 (on_tick NewCheckinCmd f ?w1)"
      using lg1 lg2 dp cl by (rule reporter_only_on_tick)
    moreover have "reporter_only f q (on_tick NewCheckinCmd f ?w1)
        (snd (worker NewCheckinCmd f sel (on_tick NewCheckinCmd f ?w1)))"
      by (rule Cons.IH)
    ultimately show ?thesis
      using Tick by (auto intro: steps)
  qed
qed

text \<open>
  Claim C10. Let \<open>q\<close> be a part of the world (the reporter's queue of pending events)
  that the logger, the dispatcher, the client and the scheduler leave as it is. Then
  from the start to the end of \<open>execute\<close>, and of any run of the worker loop, \<open>q\<close>
  changes only by calls of the reporter's \<^verbatim>\<open>Events()\<close> and by invocations of the
  acknowledgment that such a call returned; \<^verbatim>\<open>Start\<close> leaves the whole world as it is
  and \<^verbatim>\<open>Stop\<close> leaves \<open>q\<close> as it is.
\<close>

theorem gateway_reaches_queue_through_reporter_only:
  assumes lg1: "\<And>msg w. q (Debug (log f) msg w) = q w"
      and lg2: "\<And>err w. q (Error (log f) err w) = q w"
      and dp: "\<And>actions w. q (snd (Dispatch (dispatcher f) actions w)) = q w"
      and cl: "\<And>info c req w. q (snd (Execute (NewCheckinCmd info c) req w)) = q w"
      and sc1: "\<And>w. q (WaitTick (scheduler f) w) = q w"
      and sc2: "\<And>w. q (SchedulerStop (scheduler f) w) = q w"
  shows "reporter_only f q w (snd (execute NewCheckinCmd f w))
       \<and> reporter_only f q w (snd (worker NewCheckinCmd f sel w))
       \<and> snd (Start NewCheckinCmd f w) = w
       \<and> (\<forall>f' w'. Stop f w = Inr (f', w') \<longrightarrow> q w' = q w)"
proof -
  have "reporter_only f q w (snd (execute NewCheckinCmd f w))"
    using cl by (rule reporter_only_execute)
  moreover have "reporter_only f q w (snd (worker NewCheckinCmd f sel w))"
    using lg1 lg2 dp cl sc1 by (rule reporter_only_worker)
  moreover have "q w' = q w" if "Stop f w = Inr (f', w')" for f' w'
    using that by (cases "done_ch f") (auto simp: Stop_def sc2)
  ultimately show ?thesis
    by (simp add: Start_world)
qed

theorem gateway_reaches_queue_through_reporter_only_witness:
  "reporter_only fake_gateway pending world_ok (snd (execute fake_NewCheckinCmd fake_gateway world_ok))
   \<and> reporter_only fake_gateway pending world_ok
         (snd (worker fake_NewCheckinCmd fake_gateway [Tick, Done] world_ok))
   \<and> snd (Start fake_NewCheckinCmd fake_gateway world_ok) = world_ok"
proof -
  have lg1: "pending (Debug (log fake_gateway) msg w) = pending w" for msg w
    by (simp add: fake_log)
  have lg2: "pending (Error (log fake_gateway) err w) = pending w" for err w
    by (simp add: fake_log)
  have dp: "pending (snd (Dispatch (dispatcher fake_gateway) actions w)) = pending w" for actions w
    by (simp add: fake_Dispatch)
  have cl: "pending (snd (Execute (fake_NewCheckinCmd info c) req w)) = pending w" for info c req w
    by (simp add: fake_NewCheckinCmd_def split: list.splits)
  have sc1: "pending (WaitTick (scheduler fake_gateway) w) = pending w" for w
    by (simp add: fake_scheduler_calls)
  have sc2: "pending (SchedulerStop (scheduler fake_gateway) w) = pending w" for w
    by (simp add: fake_scheduler_calls)
  from gateway_reaches_queue_through_reporter_only
    [where q = pending and f = fake_gateway and w = world_ok and sel = "[Tick, Done]"
      and NewCheckinCmd = fake_NewCheckinCmd, OF lg1 lg2 dp cl sc1 sc2]
  show ?thesis by simp
qed

text \<open>
  The relation is not always true. With the reporter of the concrete runs, whatever
  is reached through the reporter only leaves a queue that is the old one without some
  of its first events: nothing is added to the queue and nothing in it is reordered.
\<close>

lemma fake_queue_only_shrinks:
  "reporter_only fake_gateway pending w w' \<Longrightarrow> \<exists>n. pending w' = drop n (pending w)"
proof (induction rule: reporter_only.induct)
  case (untouched w' w)
  then have "pending w' = drop 0 (pending w)" by simp
  then show ?case by blast
next
  case (snapshot w ee ack w')
  then have "pending w' = drop 0 (pending w)" by (simp add: fake_Events)
  then show ?case by blast
next
  case (snapshot_ack w ee ack w1 w2)
  then have "pending (ack w2) = drop (length (pending w)) (pending w)"
    by (auto simp: fake_Events fake_ack_def)
  then show ?case by blast
next
  case (steps w w' w'')
  then obtain n m where "pending w' = drop n (pending w)" and "pending w'' = drop m (pending w')"
    by blast
  then have "pending w'' = drop (m + n) (pending w)" by simp
  then show ?case by blast
qed

lemma fake_queue_gets_no_event:
  "\<not> reporter_only fake_gateway pending world_ok (world_ok\<lparr>pending := [5]\<rparr>)"
proof
  assume "reporter_only fake_gateway pending world_ok (world_ok\<lparr>pending := [5]\<rparr>)"
  then obtain n where "[5] = drop n [1, 2 :: nat]"
    by (auto dest!: fake_queue_only_shrinks simp: world_ok_def)
  then have "set [5 :: nat] \<subseteq> set [1, 2]"
    by (metis set_drop_subset)
  then show False by simp
qed

end
